theory Spec2Isabelle
  imports Main "HOL-Library.Word"
begin

section \<open>Exception classes (include/sqlpp11/postgresql/exception.h)\<close>

text \<open>
  One tag per class of the header, plus \<open>Sqlpp_exception\<close> for \<open>::sqlpp::exception\<close>,
  the class \<open>failure\<close> derives from and the one \<open>bind_result.cpp\<close> throws.
\<close>

datatype kind =
    Sqlpp_exception
  | Failure
  | Broken_connection
  | Sql_error
  | In_doubt_error
  | Feature_not_supported
  | Data_exception
  | Integrity_constraint_violation
  | Restrict_violation
  | Not_null_violation
  | Foreign_key_violation
  | Unique_violation
  | Check_violation
  | Invalid_cursor_state
  | Invalid_sql_statement_name
  | Invalid_cursor_name
  | Syntax_error
  | Undefined_column
  | Undefined_function
  | Undefined_table
  | Insufficient_privilege
  | Insufficient_resources
  | Disk_full
  | Out_of_memory
  | Too_many_connections
  | Plpgsql_error
  | Plpgsql_raise
  | Plpgsql_no_data_found
  | Plpgsql_too_many_rows

text \<open>The direct public base of each class, read off its \<open>class X : public Y\<close> line.\<close>

fun base :: "kind \<Rightarrow> kind option" where
  "base Sqlpp_exception = None"
| "base Failure = Some Sqlpp_exception"
| "base Broken_connection = Some Failure"
| "base Sql_error = Some Failure"
| "base In_doubt_error = Some Failure"
| "base Feature_not_supported = Some Sql_error"
| "base Data_exception = Some Sql_error"
| "base Integrity_constraint_violation = Some Sql_error"
| "base Restrict_violation = Some Integrity_constraint_violation"
| "base Not_null_violation = Some Integrity_constraint_violation"
| "base Foreign_key_violation = Some Integrity_constraint_violation"
| "base Unique_violation = Some Integrity_constraint_violation"
| "base Check_violation = Some Integrity_constraint_violation"
| "base Invalid_cursor_state = Some Sql_error"
| "base Invalid_sql_statement_name = Some Sql_error"
| "base Invalid_cursor_name = Some Sql_error"
| "base Syntax_error = Some Sql_error"
| "base Undefined_column = Some Syntax_error"
| "base Undefined_function = Some Syntax_error"
| "base Undefined_table = Some Syntax_error"
| "base Insufficient_privilege = Some Sql_error"
| "base Insufficient_resources = Some Sql_error"
| "base Disk_full = Some Insufficient_resources"
| "base Out_of_memory = Some Insufficient_resources"
| "base Too_many_connections = Some Broken_connection"
| "base Plpgsql_error = Some Sql_error"
| "base Plpgsql_raise = Some Plpgsql_error"
| "base Plpgsql_no_data_found = Some Plpgsql_error"
| "base Plpgsql_too_many_rows = Some Plpgsql_error"

text \<open>
  The chain of classes a handler can name to catch an object of dynamic type \<open>k\<close>: the
  class itself, then its base, and so on (all inheritance in the header is public and
  single). \<open>climb n k\<close> follows at most \<open>n\<close> base links; the header has 29 classes, so
  29 links reach the top of every chain.
\<close>

fun climb :: "nat \<Rightarrow> kind \<Rightarrow> kind list" where
  "climb 0 k = [k]"
| "climb (Suc n) k = k # (case base k of None \<Rightarrow> [] | Some b \<Rightarrow> climb n b)"

definition ancestors :: "kind \<Rightarrow> kind list" where
  "ancestors k = climb 29 k"

text \<open>
  An exception object: its dynamic type, the message \<open>what()\<close> returns, the query
  \<open>m_Q\<close> (present from \<open>sql_error\<close> downward) and \<open>error_position\<close> (present from
  \<open>syntax_error\<close> downward).
\<close>

record exception =
  dynamic_type :: kind
  what :: string
  m_Q :: "string option"
  error_position :: "int option"

definition catchable_as :: "exception \<Rightarrow> kind \<Rightarrow> bool" where
  "catchable_as e k = (k \<in> set (ancestors (dynamic_type e)))"


subsection \<open>Constructors\<close>

text \<open>
  \<open>::sqlpp::exception\<close> belongs to the sqlpp11 library: a \<open>std::runtime_error\<close> whose
  \<open>what()\<close> returns the string it was constructed with.
\<close>

definition sqlpp_exception :: "string \<Rightarrow> exception" where
  "sqlpp_exception what_arg =
     \<lparr>dynamic_type = Sqlpp_exception, what = what_arg, m_Q = None, error_position = None\<rparr>"

text \<open>
  Modelled from the spec: the header only declares \<open>failure::failure(const std::string &)\<close>;
  its body is in a source file that is not under src/. The spec's testable property is
  that an instance constructed with message \<open>m\<close> returns \<open>m\<close> from its message accessor,
  so the constructor hands its argument to the base class \<open>::sqlpp::exception\<close>.
\<close>

definition failure :: "string \<Rightarrow> exception" where
  "failure whatarg = (sqlpp_exception whatarg)\<lparr>dynamic_type := Failure\<rparr>"

text \<open>
  Modelled from the spec: \<open>broken_connection(const std::string &)\<close> is declared only; it
  passes its message to \<open>failure\<close>.
\<close>

definition broken_connection :: "string \<Rightarrow> exception" where
  "broken_connection whatarg = (failure whatarg)\<lparr>dynamic_type := Broken_connection\<rparr>"

text \<open>
  Modelled from the spec: \<open>sql_error(const std::string &)\<close> is declared only; it passes
  the message to \<open>failure\<close> and leaves the query empty.
\<close>

definition sql_error :: "string \<Rightarrow> exception" where
  "sql_error whatarg = (failure whatarg)\<lparr>dynamic_type := Sql_error, m_Q := Some []\<rparr>"

text \<open>
  Modelled from the spec: \<open>sql_error(const std::string &, const std::string &Q)\<close> is
  declared only; it passes the message to \<open>failure\<close> and stores \<open>Q\<close> in \<open>m_Q\<close>.
\<close>

definition sql_error_Q :: "string \<Rightarrow> string \<Rightarrow> exception" where
  "sql_error_Q whatarg Q = (failure whatarg)\<lparr>dynamic_type := Sql_error, m_Q := Some Q\<rparr>"

text \<open>
  Modelled from the spec: \<open>sql_error::query()\<close> is declared only; the query accessor
  returns the query the object was constructed with.
\<close>

definition query :: "exception \<Rightarrow> string option" where
  "query e = m_Q e"

text \<open>
  Modelled from the spec: \<open>in_doubt_error(const std::string &)\<close> is declared only; it
  passes its message to \<open>failure\<close>.
\<close>

definition in_doubt_error :: "string \<Rightarrow> exception" where
  "in_doubt_error whatarg = (failure whatarg)\<lparr>dynamic_type := In_doubt_error\<rparr>"

text \<open>
  The remaining constructors are written in the header. Each one runs the constructor of
  its base class on the same arguments; the object's dynamic type is the class being
  constructed. \<open>X err\<close> is \<open>X(err)\<close> and \<open>X_Q err Q\<close> is \<open>X(err, Q)\<close>.
\<close>

definition feature_not_supported :: "string \<Rightarrow> exception" where
  "feature_not_supported err = (sql_error err)\<lparr>dynamic_type := Feature_not_supported\<rparr>"

definition feature_not_supported_Q :: "string \<Rightarrow> string \<Rightarrow> exception" where
  "feature_not_supported_Q err Q = (sql_error_Q err Q)\<lparr>dynamic_type := Feature_not_supported\<rparr>"

definition data_exception :: "string \<Rightarrow> exception" where
  "data_exception err = (sql_error err)\<lparr>dynamic_type := Data_exception\<rparr>"

definition data_exception_Q :: "string \<Rightarrow> string \<Rightarrow> exception" where
  "data_exception_Q err Q = (sql_error_Q err Q)\<lparr>dynamic_type := Data_exception\<rparr>"

definition integrity_constraint_violation :: "string \<Rightarrow> exception" where
  "integrity_constraint_violation err = (sql_error err)\<lparr>dynamic_type := Integrity_constraint_violation\<rparr>"

definition integrity_constraint_violation_Q :: "string \<Rightarrow> string \<Rightarrow> exception" where
  "integrity_constraint_violation_Q err Q = (sql_error_Q err Q)\<lparr>dynamic_type := Integrity_constraint_violation\<rparr>"

definition restrict_violation :: "string \<Rightarrow> exception" where
  "restrict_violation err = (integrity_constraint_violation err)\<lparr>dynamic_type := Restrict_violation\<rparr>"

definition restrict_violation_Q :: "string \<Rightarrow> string \<Rightarrow> exception" where
  "restrict_violation_Q err Q = (integrity_constraint_violation_Q err Q)\<lparr>dynamic_type := Restrict_violation\<rparr>"

definition not_null_violation :: "string \<Rightarrow> exception" where
  "not_null_violation err = (integrity_constraint_violation err)\<lparr>dynamic_type := Not_null_violation\<rparr>"

definition not_null_violation_Q :: "string \<Rightarrow> string \<Rightarrow> exception" where
  "not_null_violation_Q err Q = (integrity_constraint_violation_Q err Q)\<lparr>dynamic_type := Not_null_violation\<rparr>"

definition foreign_key_violation :: "string \<Rightarrow> exception" where
  "foreign_key_violation err = (integrity_constraint_violation err)\<lparr>dynamic_type := Foreign_key_violation\<rparr>"

definition foreign_key_violation_Q :: "string \<Rightarrow> string \<Rightarrow> exception" where
  "foreign_key_violation_Q err Q = (integrity_constraint_violation_Q err Q)\<lparr>dynamic_type := Foreign_key_violation\<rparr>"

definition unique_violation :: "string \<Rightarrow> exception" where
  "unique_violation err = (integrity_constraint_violation err)\<lparr>dynamic_type := Unique_violation\<rparr>"

definition unique_violation_Q :: "string \<Rightarrow> string \<Rightarrow> exception" where
  "unique_violation_Q err Q = (integrity_constraint_violation_Q err Q)\<lparr>dynamic_type := Unique_violation\<rparr>"

definition check_violation :: "string \<Rightarrow> exception" where
  "check_violation err = (integrity_constraint_violation err)\<lparr>dynamic_type := Check_violation\<rparr>"

definition check_violation_Q :: "string \<Rightarrow> string \<Rightarrow> exception" where
  "check_violation_Q err Q = (integrity_constraint_violation_Q err Q)\<lparr>dynamic_type := Check_violation\<rparr>"

definition invalid_cursor_state :: "string \<Rightarrow> exception" where
  "invalid_cursor_state err = (sql_error err)\<lparr>dynamic_type := Invalid_cursor_state\<rparr>"

definition invalid_cursor_state_Q :: "string \<Rightarrow> string \<Rightarrow> exception" where
  "invalid_cursor_state_Q err Q = (sql_error_Q err Q)\<lparr>dynamic_type := Invalid_cursor_state\<rparr>"

definition invalid_sql_statement_name :: "string \<Rightarrow> exception" where
  "invalid_sql_statement_name err = (sql_error err)\<lparr>dynamic_type := Invalid_sql_statement_name\<rparr>"

definition invalid_sql_statement_name_Q :: "string \<Rightarrow> string \<Rightarrow> exception" where
  "invalid_sql_statement_name_Q err Q = (sql_error_Q err Q)\<lparr>dynamic_type := Invalid_sql_statement_name\<rparr>"

definition invalid_cursor_name :: "string \<Rightarrow> exception" where
  "invalid_cursor_name err = (sql_error err)\<lparr>dynamic_type := Invalid_cursor_name\<rparr>"

definition invalid_cursor_name_Q :: "string \<Rightarrow> string \<Rightarrow> exception" where
  "invalid_cursor_name_Q err Q = (sql_error_Q err Q)\<lparr>dynamic_type := Invalid_cursor_name\<rparr>"

text \<open>\<open>syntax_error\<close> also stores \<open>error_position\<close>; the parameter \<open>pos\<close> defaults to \<open>-1\<close>.\<close>

definition syntax_error :: "string \<Rightarrow> int \<Rightarrow> exception" where
  "syntax_error err pos =
     (sql_error err)\<lparr>dynamic_type := Syntax_error, error_position := Some pos\<rparr>"

definition syntax_error_Q :: "string \<Rightarrow> string \<Rightarrow> int \<Rightarrow> exception" where
  "syntax_error_Q err Q pos =
     (sql_error_Q err Q)\<lparr>dynamic_type := Syntax_error, error_position := Some pos\<rparr>"

definition undefined_column :: "string \<Rightarrow> exception" where
  "undefined_column err = (syntax_error err (- 1))\<lparr>dynamic_type := Undefined_column\<rparr>"

definition undefined_column_Q :: "string \<Rightarrow> string \<Rightarrow> exception" where
  "undefined_column_Q err Q = (syntax_error_Q err Q (- 1))\<lparr>dynamic_type := Undefined_column\<rparr>"

definition undefined_function :: "string \<Rightarrow> exception" where
  "undefined_function err = (syntax_error err (- 1))\<lparr>dynamic_type := Undefined_function\<rparr>"

definition undefined_function_Q :: "string \<Rightarrow> string \<Rightarrow> exception" where
  "undefined_function_Q err Q = (syntax_error_Q err Q (- 1))\<lparr>dynamic_type := Undefined_function\<rparr>"

definition undefined_table :: "string \<Rightarrow> exception" where
  "undefined_table err = (syntax_error err (- 1))\<lparr>dynamic_type := Undefined_table\<rparr>"

definition undefined_table_Q :: "string \<Rightarrow> string \<Rightarrow> exception" where
  "undefined_table_Q err Q = (syntax_error_Q err Q (- 1))\<lparr>dynamic_type := Undefined_table\<rparr>"

definition insufficient_privilege :: "string \<Rightarrow> exception" where
  "insufficient_privilege err = (sql_error err)\<lparr>dynamic_type := Insufficient_privilege\<rparr>"

definition insufficient_privilege_Q :: "string \<Rightarrow> string \<Rightarrow> exception" where
  "insufficient_privilege_Q err Q = (sql_error_Q err Q)\<lparr>dynamic_type := Insufficient_privilege\<rparr>"

definition insufficient_resources :: "string \<Rightarrow> exception" where
  "insufficient_resources err = (sql_error err)\<lparr>dynamic_type := Insufficient_resources\<rparr>"

definition insufficient_resources_Q :: "string \<Rightarrow> string \<Rightarrow> exception" where
  "insufficient_resources_Q err Q = (sql_error_Q err Q)\<lparr>dynamic_type := Insufficient_resources\<rparr>"

definition disk_full :: "string \<Rightarrow> exception" where
  "disk_full err = (insufficient_resources err)\<lparr>dynamic_type := Disk_full\<rparr>"

definition disk_full_Q :: "string \<Rightarrow> string \<Rightarrow> exception" where
  "disk_full_Q err Q = (insufficient_resources_Q err Q)\<lparr>dynamic_type := Disk_full\<rparr>"

definition out_of_memory :: "string \<Rightarrow> exception" where
  "out_of_memory err = (insufficient_resources err)\<lparr>dynamic_type := Out_of_memory\<rparr>"

definition out_of_memory_Q :: "string \<Rightarrow> string \<Rightarrow> exception" where
  "out_of_memory_Q err Q = (insufficient_resources_Q err Q)\<lparr>dynamic_type := Out_of_memory\<rparr>"

definition too_many_connections :: "string \<Rightarrow> exception" where
  "too_many_connections err = (broken_connection err)\<lparr>dynamic_type := Too_many_connections\<rparr>"

definition plpgsql_error :: "string \<Rightarrow> exception" where
  "plpgsql_error err = (sql_error err)\<lparr>dynamic_type := Plpgsql_error\<rparr>"

definition plpgsql_error_Q :: "string \<Rightarrow> string \<Rightarrow> exception" where
  "plpgsql_error_Q err Q = (sql_error_Q err Q)\<lparr>dynamic_type := Plpgsql_error\<rparr>"

definition plpgsql_raise :: "string \<Rightarrow> exception" where
  "plpgsql_raise err = (plpgsql_error err)\<lparr>dynamic_type := Plpgsql_raise\<rparr>"

definition plpgsql_raise_Q :: "string \<Rightarrow> string \<Rightarrow> exception" where
  "plpgsql_raise_Q err Q = (plpgsql_error_Q err Q)\<lparr>dynamic_type := Plpgsql_raise\<rparr>"

definition plpgsql_no_data_found :: "string \<Rightarrow> exception" where
  "plpgsql_no_data_found err = (plpgsql_error err)\<lparr>dynamic_type := Plpgsql_no_data_found\<rparr>"

definition plpgsql_no_data_found_Q :: "string \<Rightarrow> string \<Rightarrow> exception" where
  "plpgsql_no_data_found_Q err Q = (plpgsql_error_Q err Q)\<lparr>dynamic_type := Plpgsql_no_data_found\<rparr>"

definition plpgsql_too_many_rows :: "string \<Rightarrow> exception" where
  "plpgsql_too_many_rows err = (plpgsql_error err)\<lparr>dynamic_type := Plpgsql_too_many_rows\<rparr>"

definition plpgsql_too_many_rows_Q :: "string \<Rightarrow> string \<Rightarrow> exception" where
  "plpgsql_too_many_rows_Q err Q = (plpgsql_error_Q err Q)\<lparr>dynamic_type := Plpgsql_too_many_rows\<rparr>"


section \<open>The result buffer (libpq's PGresult)\<close>

text \<open>
  \<open>bind_result.cpp\<close> reads the query result through five functions of the PostgreSQL
  client library: \<open>PQntuples\<close>, \<open>PQnfields\<close>, \<open>PQgetvalue\<close>, \<open>PQgetisnull\<close> and
  \<open>PQgetlength\<close>. The library is not part of the repository; the buffer is modelled after
  its documented contract. A cell stores its text and a length, and the length
  \<open>NULL_LEN = -1\<close> marks an SQL null; the text and the null marker are independent
  components, so nothing below relies on a null cell having empty text. Outside the
  table \<open>PQgetvalue\<close> returns a null pointer (\<open>None\<close>), \<open>PQgetisnull\<close> returns 1 and
  \<open>PQgetlength\<close> returns 0. Row and column numbers are C \<open>int\<close>s, written as \<open>int\<close>.
\<close>

type_synonym uint32_t = "32 word"
type_synonym size_t = "64 word"
type_synonym int64_t = "64 word"
type_synonym signed_char = "8 word"

record pgresAttValue =
  att_len :: int
  att_value :: string

definition NULL_LEN :: int where
  "NULL_LEN = - 1"

record PGresult =
  ntups :: int
  numAttributes :: int
  tuples :: "nat \<Rightarrow> nat \<Rightarrow> pgresAttValue"

definition PQntuples :: "PGresult \<Rightarrow> int" where
  "PQntuples res = ntups res"

definition PQnfields :: "PGresult \<Rightarrow> int" where
  "PQnfields res = numAttributes res"

definition check_tuple_field_number :: "PGresult \<Rightarrow> int \<Rightarrow> int \<Rightarrow> bool" where
  "check_tuple_field_number res tup_num field_num =
     (0 \<le> tup_num \<and> tup_num < ntups res \<and> 0 \<le> field_num \<and> field_num < numAttributes res)"

definition PQgetvalue :: "PGresult \<Rightarrow> int \<Rightarrow> int \<Rightarrow> string option" where
  "PQgetvalue res tup_num field_num =
     (if \<not> check_tuple_field_number res tup_num field_num then None
      else Some (att_value (tuples res (nat tup_num) (nat field_num))))"

definition PQgetisnull :: "PGresult \<Rightarrow> int \<Rightarrow> int \<Rightarrow> int" where
  "PQgetisnull res tup_num field_num =
     (if \<not> check_tuple_field_number res tup_num field_num then 1
      else if att_len (tuples res (nat tup_num) (nat field_num)) = NULL_LEN then 1
      else 0)"

definition PQgetlength :: "PGresult \<Rightarrow> int \<Rightarrow> int \<Rightarrow> int" where
  "PQgetlength res tup_num field_num =
     (if \<not> check_tuple_field_number res tup_num field_num then 0
      else if att_len (tuples res (nat tup_num) (nat field_num)) = NULL_LEN then 0
      else att_len (tuples res (nat tup_num) (nat field_num)))"

text \<open>
  The conversions C applies at the call sites: an unsigned 32-bit counter or a \<open>size_t\<close>
  index passed for an \<open>int\<close> parameter keeps its low 32 bits, read as two's complement.
\<close>

definition int_of_uint32 :: "uint32_t \<Rightarrow> int" where
  "int_of_uint32 c = sint c"

definition int_of_size_t :: "size_t \<Rightarrow> int" where
  "int_of_size_t i = sint (ucast i :: 32 word)"

section \<open>Formatted extraction from std::istringstream\<close>

text \<open>
  The scalar decodes run \<open>std::istringstream in(text); in >> *value;\<close>. The stream never
  throws (its exception mask is empty); a failed extraction only sets the stream's
  failbit, which the code does not look at. What is stored in \<open>*value\<close>, as the C++11
  library specifies it for the classic locale:
  \<^item> the sentry first skips leading white space; when nothing is left, the extraction
    fails before any conversion and \<open>*value\<close> keeps the value it had;
  \<^item> for \<open>signed char\<close> the next character is stored;
  \<^item> for \<open>int64_t\<close> the longest prefix that is an optionally signed decimal number is
    converted: no digits stores 0, a number beyond the range stores the nearest bound;
  \<^item> for \<open>double\<close> floating-point values are not modelled: \<open>'d\<close> stands for the type
    \<open>double\<close>, \<open>zero\<close> for its value 0.0, and the conversion of the text to a number is
    a parameter \<open>conv\<close>, with \<open>None\<close> where the text does not start with a number; as
    for the integers, 0 is stored then.
\<close>

definition isspace :: "char \<Rightarrow> bool" where
  "isspace c = (c \<in> set [CHR '' '', CHR 0x09, CHR 0x0A, CHR 0x0B, CHR 0x0C, CHR 0x0D])"

definition skipws :: "string \<Rightarrow> string" where
  "skipws s = dropWhile isspace s"

definition extract_signed_char :: "string \<Rightarrow> signed_char \<Rightarrow> signed_char" where
  "extract_signed_char s old =
     (case skipws s of [] \<Rightarrow> old | c # _ \<Rightarrow> of_char c)"

definition isdigit :: "char \<Rightarrow> bool" where
  "isdigit c = (of_char CHR ''0'' \<le> (of_char c :: nat) \<and> (of_char c :: nat) \<le> of_char CHR ''9'')"

fun decimal :: "nat \<Rightarrow> string \<Rightarrow> nat" where
  "decimal acc [] = acc"
| "decimal acc (c # cs) = decimal (acc * 10 + (of_char c - of_char CHR ''0'')) cs"

definition INT64_MAX :: int where
  "INT64_MAX = 2 ^ 63 - 1"

definition INT64_MIN :: int where
  "INT64_MIN = - (2 ^ 63)"

definition strip_sign :: "string \<Rightarrow> string" where
  "strip_sign s =
     (case s of [] \<Rightarrow> [] | c # cs \<Rightarrow> if c = CHR ''-'' \<or> c = CHR ''+'' then cs else s)"

definition leading_digits :: "string \<Rightarrow> string" where
  "leading_digits s = takeWhile isdigit (strip_sign s)"

definition num_get_int64 :: "string \<Rightarrow> int64_t" where
  "num_get_int64 s =
     (let negative = (case s of [] \<Rightarrow> False | c # _ \<Rightarrow> c = CHR ''-'');
          ds = leading_digits s;
          v = (if negative then - int (decimal 0 ds) else int (decimal 0 ds))
      in if ds = [] then 0
         else if INT64_MAX < v then word_of_int INT64_MAX
         else if v < INT64_MIN then word_of_int INT64_MIN
         else word_of_int v)"

definition extract_int64 :: "string \<Rightarrow> int64_t \<Rightarrow> int64_t" where
  "extract_int64 s old =
     (case skipws s of [] \<Rightarrow> old | c # cs \<Rightarrow> num_get_int64 (c # cs))"

definition extract_double :: "(string \<Rightarrow> 'd option) \<Rightarrow> 'd \<Rightarrow> string \<Rightarrow> 'd \<Rightarrow> 'd" where
  "extract_double conv zero s old =
     (case skipws s of
        [] \<Rightarrow> old
      | c # cs \<Rightarrow> (case conv (c # cs) of None \<Rightarrow> zero | Some v \<Rightarrow> v))"

section \<open>The result cursor (src/bind_result.cpp)\<close>

text \<open>
  Modelled from the spec: \<open>detail/prepared_statement_handle.h\<close> is not under src/. The
  spec's result set handle owns the raw result buffer, the current row cursor position
  (0-based), the total row count and the total field count (both computed lazily), and a
  debug flag; \<open>bind_result.cpp\<close> names them \<open>result\<close>, \<open>count\<close>, \<open>totalCount\<close>,
  \<open>fields\<close> and \<open>debug\<close>, and compares the counters with \<open>0U\<close>: they are unsigned, taken
  as 32 bits wide. (The field \<open>fields\<close> is written \<open>fields'\<close>: the record package
  reserves the plain name.)
\<close>

record prepared_statement_handle_t =
  result :: PGresult
  debug :: bool
  count :: uint32_t
  totalCount :: uint32_t
  fields' :: uint32_t

text \<open>
  Modelled from the spec: the initial values of the handle's members are in the same
  missing header. The row cursor is 0-based and both counts are computed lazily, on
  first access, with 0 standing for "not yet computed": a new handle has all three at 0.
\<close>

definition new_handle :: "PGresult \<Rightarrow> bool \<Rightarrow> prepared_statement_handle_t" where
  "new_handle res dbg = \<lparr>result = res, debug = dbg, count = 0, totalCount = 0, fields' = 0\<rparr>"

text \<open>
  The lines written to \<open>std::cerr\<close>: the literal text, and the index the decode
  operations print after it (\<open>next_impl\<close> prints the handle's address, which is not
  modelled).
\<close>

type_synonym cerr_line = "string \<times> size_t option"

definition cerr_if :: "bool \<Rightarrow> cerr_line \<Rightarrow> cerr_line list" where
  "cerr_if dbg line = (if dbg then [line] else [])"

datatype error =
    Index_out_of_range
  | Null_string

text \<open>
  \<open>Index_out_of_range\<close> is \<open>sqlpp::exception("PostgreSQL error: index out of range")\<close>.
  \<open>Null_string\<close> stands for the construction of the \<open>std::string\<close> argument of
  \<open>std::istringstream\<close> from the null pointer that \<open>PQgetvalue\<close> returns outside the
  table: undefined behaviour in C++, kept apart from every normal return.
\<close>

definition out_of_range_exception :: exception where
  "out_of_range_exception = sqlpp_exception ''PostgreSQL error: index out of range''"

text \<open>Lines 40-42 of \<open>next_impl\<close>: fetch the field count while the cached one is 0.\<close>

definition fetch_fields :: "prepared_statement_handle_t \<Rightarrow> prepared_statement_handle_t" where
  "fetch_fields h =
     (if fields' h = 0 then h\<lparr>fields' := word_of_int (PQnfields (result h))\<rparr> else h)"

definition next_impl ::
  "prepared_statement_handle_t \<Rightarrow> cerr_line list \<times> bool \<times> prepared_statement_handle_t" where
  "next_impl h =
     (let out = cerr_if (debug h) (''PostgreSQL debug: accessing next row of handle at '', None)
      in if totalCount h = 0 then
           (out, True, fetch_fields (h\<lparr>totalCount := word_of_int (PQntuples (result h))\<rparr>))
         else if count h < totalCount h - 1 then
           (out, True, fetch_fields (h\<lparr>count := count h + 1\<rparr>))
         else (out, False, h))"

definition bind_boolean_result ::
  "prepared_statement_handle_t \<Rightarrow> size_t \<Rightarrow> signed_char
     \<Rightarrow> cerr_line list \<times> (error + signed_char \<times> bool)" where
  "bind_boolean_result h index val =
     (cerr_if (debug h) (''PostgreSQL debug: binding boolean result at index: '', Some index),
      if index > ucast (fields' h) then Inl Index_out_of_range
      else case PQgetvalue (result h) (int_of_uint32 (count h)) (int_of_size_t index) of
             None \<Rightarrow> Inl Null_string
           | Some s \<Rightarrow>
               Inr (extract_signed_char s val,
                    PQgetisnull (result h) (int_of_uint32 (count h)) (int_of_size_t index) \<noteq> 0))"

definition bind_floating_point_result ::
  "(string \<Rightarrow> 'd option) \<Rightarrow> 'd \<Rightarrow> prepared_statement_handle_t \<Rightarrow> size_t \<Rightarrow> 'd
     \<Rightarrow> cerr_line list \<times> (error + 'd \<times> bool)" where
  "bind_floating_point_result conv zero h index val =
     (cerr_if (debug h)
        (''PostgreSQL debug: binding floating_point result at index: '', Some index),
      if index > ucast (fields' h) then Inl Index_out_of_range
      else case PQgetvalue (result h) (int_of_uint32 (count h)) (int_of_size_t index) of
             None \<Rightarrow> Inl Null_string
           | Some s \<Rightarrow>
               Inr (extract_double conv zero s val,
                    PQgetisnull (result h) (int_of_uint32 (count h)) (int_of_size_t index) \<noteq> 0))"

definition bind_integral_result ::
  "prepared_statement_handle_t \<Rightarrow> size_t \<Rightarrow> int64_t
     \<Rightarrow> cerr_line list \<times> (error + int64_t \<times> bool)" where
  "bind_integral_result h index val =
     (cerr_if (debug h) (''PostgreSQL debug: binding integral result at index: '', Some index),
      if index > ucast (fields' h) then Inl Index_out_of_range
      else case PQgetvalue (result h) (int_of_uint32 (count h)) (int_of_size_t index) of
             None \<Rightarrow> Inl Null_string
           | Some s \<Rightarrow>
               Inr (extract_int64 s val,
                    PQgetisnull (result h) (int_of_uint32 (count h)) (int_of_size_t index) \<noteq> 0))"

text \<open>
  The text decode stores the pointer \<open>PQgetvalue\<close> returns, as it is (\<open>None\<close> is the null
  pointer, \<open>Some s\<close> a pointer to the bytes \<open>s\<close> in the buffer), and \<open>PQgetlength\<close>
  converted to \<open>size_t\<close>. It has no \<open>is_null\<close> parameter.
\<close>

definition bind_text_result ::
  "prepared_statement_handle_t \<Rightarrow> size_t
     \<Rightarrow> cerr_line list \<times> (error + string option \<times> size_t)" where
  "bind_text_result h index =
     (cerr_if (debug h) (''PostgreSQL debug: binding text result at index: '', Some index),
      if index > ucast (fields' h) then Inl Index_out_of_range
      else Inr (PQgetvalue (result h) (int_of_uint32 (count h)) (int_of_size_t index),
                word_of_int (PQgetlength (result h) (int_of_uint32 (count h)) (int_of_size_t index))))"

text \<open>Calling \<open>next_impl\<close> \<open>n\<close> times in a row: the values returned, and the final handle.\<close>

fun advance_n ::
  "nat \<Rightarrow> prepared_statement_handle_t \<Rightarrow> bool list \<times> prepared_statement_handle_t" where
  "advance_n 0 h = ([], h)"
| "advance_n (Suc n) h =
     (case next_impl h of (out, b, h') \<Rightarrow>
        (case advance_n n h' of (bs, h'') \<Rightarrow> (b # bs, h'')))"


section \<open>Notions used in the statements\<close>

text \<open>
  The cell the decode operations address: row \<open>count\<close>, column \<open>index\<close>, both
  converted to \<open>int\<close> as at the call sites; and whether that cell lies inside the table.
\<close>

definition cell_in_table :: "prepared_statement_handle_t \<Rightarrow> size_t \<Rightarrow> bool" where
  "cell_in_table h index =
     check_tuple_field_number (result h) (int_of_uint32 (count h)) (int_of_size_t index)"

definition current_cell :: "prepared_statement_handle_t \<Rightarrow> size_t \<Rightarrow> pgresAttValue" where
  "current_cell h index =
     tuples (result h) (nat (int_of_uint32 (count h))) (nat (int_of_size_t index))"

text \<open>
  A sequence of calls on one handle. Only \<open>next_impl\<close> writes to the handle; the decode
  operations read it and write through their output parameters, so the handle after a
  decode is the handle before it, whatever the arguments and whether or not it throws.
\<close>

datatype call =
    Next
  | Bind_boolean size_t
  | Bind_floating_point size_t
  | Bind_integral size_t
  | Bind_text size_t

fun do_call :: "prepared_statement_handle_t \<Rightarrow> call \<Rightarrow> prepared_statement_handle_t" where
  "do_call h Next = snd (snd (next_impl h))"
| "do_call h (Bind_boolean index) = h"
| "do_call h (Bind_floating_point index) = h"
| "do_call h (Bind_integral index) = h"
| "do_call h (Bind_text index) = h"

definition run :: "prepared_statement_handle_t \<Rightarrow> call list \<Rightarrow> prepared_statement_handle_t" where
  "run h calls = foldl do_call h calls"

text \<open>
  The handle's invariant on the buffer \<open>res\<close> once iteration has started: the counts are
  the buffer's, and the row cursor is below the total row count.
\<close>

definition cursor_ok :: "PGresult \<Rightarrow> prepared_statement_handle_t \<Rightarrow> bool" where
  "cursor_ok res h =
     (result h = res
      \<and> totalCount h = word_of_int (PQntuples res)
      \<and> fields' h = word_of_int (PQnfields res)
      \<and> unat (count h) < unat (totalCount h))"

text \<open>
  Two buffers for the concrete cases below. \<open>sample_result\<close> has three rows and two
  columns:
  \<^item> row 0: the text \<open>42\<close>, and an SQL null (empty text, as libpq stores it);
  \<^item> row 1: the text \<open>abc\<close>, and a present empty string;
  \<^item> row 2: the text \<open>99999999999999999999\<close>, and an SQL null.
  \<open>empty_result\<close> has two columns and no row.
\<close>

definition sample_cell :: "nat \<Rightarrow> nat \<Rightarrow> pgresAttValue" where
  "sample_cell i j =
     (if j = 0 then
        (if i = 0 then \<lparr>att_len = 2, att_value = ''42''\<rparr>
         else if i = 1 then \<lparr>att_len = 3, att_value = ''abc''\<rparr>
         else \<lparr>att_len = 20, att_value = ''99999999999999999999''\<rparr>)
      else
        (if i = 1 then \<lparr>att_len = 0, att_value = []\<rparr>
         else \<lparr>att_len = - 1, att_value = []\<rparr>))"

definition sample_result :: PGresult where
  "sample_result = \<lparr>ntups = 3, numAttributes = 2, tuples = sample_cell\<rparr>"

definition empty_result :: PGresult where
  "empty_result = \<lparr>ntups = 0, numAttributes = 2, tuples = sample_cell\<rparr>"

text \<open>\<open>row_handle k\<close>: a new handle on \<open>sample_result\<close> after \<open>k\<close> calls of \<open>next_impl\<close>.\<close>

definition row_handle :: "nat \<Rightarrow> prepared_statement_handle_t" where
  "row_handle k = snd (advance_n k (new_handle sample_result False))"

text \<open>
  An object \<open>e\<close> was constructed with message \<open>m\<close> and is caught by exactly the handlers
  for the classes in \<open>chain\<close>, listed from its own class upwards.
\<close>

definition constructed :: "exception \<Rightarrow> string \<Rightarrow> kind list \<Rightarrow> bool" where
  "constructed e m chain = (what e = m \<and> ancestors (dynamic_type e) = chain)"


section \<open>Properties of the result cursor\<close>

subsection \<open>Auxiliary facts\<close>

lemma unat_ucast_32_64: "unat (ucast (f :: 32 word) :: 64 word) = unat f"
proof -
  have "unat f < 2 ^ 32"
    using unsigned_less [of f, where ?'a = nat] by simp
  then have "unat f < 2 ^ 64"
    by (rule less_trans) simp
  then show ?thesis
    by (simp add: unsigned_ucast_eq take_bit_nat_eq_self)
qed

lemma bounds_check_unat: "(ucast (f :: 32 word) < (i :: 64 word)) = (unat f < unat i)"
  by (simp add: word_less_nat_alt unat_ucast_32_64)

lemma unat_of_nat_32: "n < 2 ^ 32 \<Longrightarrow> unat (of_nat n :: 32 word) = n"
  by (simp add: unat_of_nat)

lemma word_less_pred:
  "(t :: 32 word) \<noteq> 0 \<Longrightarrow> (c < t - 1) = (Suc (unat c) < unat t)"
  by (auto simp add: word_less_nat_alt unat_minus_one)

lemma unat_succ_below:
  "unat (c :: 32 word) < unat (t :: 32 word) - 1 \<Longrightarrow> unat (c + 1) = Suc (unat c)"
proof -
  assume a: "unat c < unat t - 1"
  have "unat t < 2 ^ 32"
    using unsigned_less [of t, where ?'a = nat] by simp
  with a have "unat c + unat (1 :: 32 word) < 2 ^ LENGTH(32)"
    by simp
  then have "unat (c + 1) = unat c + unat (1 :: 32 word)"
    by (simp only: unat_add_lem)
  then show ?thesis by simp
qed

lemma fetch_fields_simps [simp]:
  "result (fetch_fields h) = result h"
  "debug (fetch_fields h) = debug h"
  "count (fetch_fields h) = count h"
  "totalCount (fetch_fields h) = totalCount h"
  by (simp_all add: fetch_fields_def)

lemma fetch_fields_cached:
  "fields' h = word_of_int (PQnfields (result h)) \<Longrightarrow> fetch_fields h = h"
  by (simp add: fetch_fields_def)

lemma next_impl_uncached:
  "totalCount h = 0 \<Longrightarrow>
     snd (next_impl h) =
       (True, fetch_fields (h\<lparr>totalCount := word_of_int (PQntuples (result h))\<rparr>))"
  by (simp add: next_impl_def Let_def)

lemma next_impl_step:
  "totalCount h \<noteq> 0 \<Longrightarrow> count h < totalCount h - 1 \<Longrightarrow>
     snd (next_impl h) = (True, fetch_fields (h\<lparr>count := count h + 1\<rparr>))"
  by (simp add: next_impl_def Let_def)

lemma next_impl_exhausted:
  "totalCount h \<noteq> 0 \<Longrightarrow> \<not> count h < totalCount h - 1 \<Longrightarrow> snd (next_impl h) = (False, h)"
  by (simp add: next_impl_def Let_def)

lemma advance_n_Suc:
  "advance_n (Suc n) h =
     (fst (snd (next_impl h)) # fst (advance_n n (snd (snd (next_impl h)))),
      snd (advance_n n (snd (snd (next_impl h)))))"
  by (simp add: split_beta)

lemma advance_n_numeral:
  "advance_n (numeral k) h =
     (fst (snd (next_impl h)) # fst (advance_n (pred_numeral k) (snd (snd (next_impl h)))),
      snd (advance_n (pred_numeral k) (snd (snd (next_impl h)))))"
  by (simp add: numeral_eq_Suc advance_n_Suc del: advance_n.simps)

lemmas cursor_eval =
  advance_n_numeral new_handle_def next_impl_def fetch_fields_def Let_def cerr_if_def
  PQntuples_def PQnfields_def sample_result_def empty_result_def

lemma row_handle_eval:
  "row_handle (Suc 0) =
     \<lparr>result = sample_result, debug = False, count = 0, totalCount = 3, fields' = 2\<rparr>"
  "row_handle 1 =
     \<lparr>result = sample_result, debug = False, count = 0, totalCount = 3, fields' = 2\<rparr>"
  "row_handle 2 =
     \<lparr>result = sample_result, debug = False, count = 1, totalCount = 3, fields' = 2\<rparr>"
  "row_handle 3 =
     \<lparr>result = sample_result, debug = False, count = 2, totalCount = 3, fields' = 2\<rparr>"
  by (simp_all add: row_handle_def cursor_eval)

lemmas decode_eval =
  row_handle_eval bind_boolean_result_def bind_floating_point_result_def
  bind_integral_result_def bind_text_result_def cerr_if_def
  PQgetvalue_def PQgetisnull_def PQgetlength_def check_tuple_field_number_def NULL_LEN_def
  int_of_uint32_def int_of_size_t_def sample_result_def sample_cell_def
  extract_signed_char_def extract_int64_def extract_double_def skipws_def isspace_def
  num_get_int64_def leading_digits_def strip_sign_def isdigit_def INT64_MAX_def INT64_MIN_def
  Let_def cell_in_table_def current_cell_def

lemma PQgetvalue_in_table:
  "check_tuple_field_number res t f \<Longrightarrow>
     PQgetvalue res t f = Some (att_value (tuples res (nat t) (nat f)))"
  by (simp add: PQgetvalue_def)

lemma PQgetisnull_in_table:
  "check_tuple_field_number res t f \<Longrightarrow>
     (PQgetisnull res t f \<noteq> 0) = (att_len (tuples res (nat t) (nat f)) = NULL_LEN)"
  by (simp add: PQgetisnull_def)

text \<open>A decode whose index passes the bounds check and whose cell is in the table.\<close>

lemma bind_boolean_result_in_table:
  "unat index \<le> unat (fields' h) \<Longrightarrow> cell_in_table h index \<Longrightarrow>
     snd (bind_boolean_result h index val) =
       Inr (extract_signed_char (att_value (current_cell h index)) val,
            att_len (current_cell h index) = NULL_LEN)"
  by (simp add: bind_boolean_result_def bounds_check_unat cell_in_table_def current_cell_def
      PQgetvalue_in_table PQgetisnull_in_table)

lemma bind_floating_point_result_in_table:
  "unat index \<le> unat (fields' h) \<Longrightarrow> cell_in_table h index \<Longrightarrow>
     snd (bind_floating_point_result conv zero h index val) =
       Inr (extract_double conv zero (att_value (current_cell h index)) val,
            att_len (current_cell h index) = NULL_LEN)"
  by (simp add: bind_floating_point_result_def bounds_check_unat cell_in_table_def
      current_cell_def PQgetvalue_in_table PQgetisnull_in_table)

lemma bind_integral_result_in_table:
  "unat index \<le> unat (fields' h) \<Longrightarrow> cell_in_table h index \<Longrightarrow>
     snd (bind_integral_result h index val) =
       Inr (extract_int64 (att_value (current_cell h index)) val,
            att_len (current_cell h index) = NULL_LEN)"
  by (simp add: bind_integral_result_def bounds_check_unat cell_in_table_def current_cell_def
      PQgetvalue_in_table PQgetisnull_in_table)

lemma bind_text_result_in_table:
  "unat index \<le> unat (fields' h) \<Longrightarrow> cell_in_table h index \<Longrightarrow>
     snd (bind_text_result h index) =
       Inr (Some (att_value (current_cell h index)),
            if att_len (current_cell h index) = NULL_LEN then 0
            else word_of_int (att_len (current_cell h index)))"
  by (simp add: bind_text_result_def bounds_check_unat cell_in_table_def current_cell_def
      PQgetvalue_in_table PQgetlength_def)

subsection \<open>Advancing the cursor\<close>

lemma advance_n_exhausted:
  "totalCount h \<noteq> 0 \<Longrightarrow> \<not> count h < totalCount h - 1 \<Longrightarrow>
     advance_n k h = (replicate k False, h)"
proof (induction k)
  case 0
  then show ?case by simp
next
  case (Suc k)
  then show ?case
    by (simp add: advance_n_Suc next_impl_exhausted del: advance_n.simps)
qed

text \<open>
  With \<open>j + 1\<close> rows left from the cursor on, the next \<open>j\<close> calls return true and every
  later call returns false and leaves the handle as it is.
\<close>

lemma advance_n_walk:
  "totalCount h \<noteq> 0 \<Longrightarrow> unat (count h) + Suc j = unat (totalCount h) \<Longrightarrow>
     advance_n (j + k) h = (replicate j True @ replicate k False, snd (advance_n j h))"
proof (induction j arbitrary: h)
  case 0
  then have "\<not> count h < totalCount h - 1"
    by (simp add: word_less_pred)
  with 0 show ?case
    by (simp add: advance_n_exhausted)
next
  case (Suc j)
  let ?h' = "fetch_fields (h\<lparr>count := count h + 1\<rparr>)"
  from Suc.prems have less: "count h < totalCount h - 1"
    by (simp add: word_less_pred)
  with Suc.prems have step: "snd (next_impl h) = (True, ?h')"
    by (simp add: next_impl_step)
  from Suc.prems have "unat (count h) < unat (totalCount h) - 1"
    by simp
  then have "unat (count h + 1) = Suc (unat (count h))"
    by (rule unat_succ_below)
  with Suc.prems have "totalCount ?h' \<noteq> 0" "unat (count ?h') + Suc j = unat (totalCount ?h')"
    by simp_all
  then have "advance_n (j + k) ?h'
               = (replicate j True @ replicate k False, snd (advance_n j ?h'))"
    by (rule Suc.IH)
  then show ?case
    by (simp add: advance_n_Suc step del: advance_n.simps)
qed

text \<open>
  On a buffer with \<open>n \<ge> 1\<close> rows (\<open>PQntuples\<close> returns an \<open>int\<close>, so \<open>n < 2^31\<close>), a new
  handle returns true \<open>n\<close> times, then false on every later call, and the handle no
  longer changes.
\<close>

lemma advance_n_nonempty:
  assumes rows: "PQntuples res = int n" and pos: "0 < n" and int_range: "n < 2 ^ 31"
  shows "fst (advance_n (n + k) (new_handle res dbg)) = replicate n True @ replicate k False"
    and "snd (advance_n (n + k) (new_handle res dbg)) = snd (advance_n n (new_handle res dbg))"
proof -
  let ?h0 = "new_handle res dbg"
  let ?h1 = "fetch_fields (?h0\<lparr>totalCount := word_of_int (PQntuples (result ?h0))\<rparr>)"
  obtain j where n: "n = Suc j"
    using pos by (cases n) auto
  have first: "snd (next_impl ?h0) = (True, ?h1)"
    by (rule next_impl_uncached) (simp add: new_handle_def)
  from int_range have "n < 2 ^ 32"
    by simp
  then have total: "unat (totalCount ?h1) = n"
    using rows by (simp add: new_handle_def unat_of_nat_32)
  with pos have nz: "totalCount ?h1 \<noteq> 0"
    by (auto simp del: fetch_fields_simps)
  have "count ?h1 = 0"
    by (simp add: new_handle_def)
  with total n have "unat (count ?h1) + Suc j = unat (totalCount ?h1)"
    by (simp del: fetch_fields_simps)
  with nz have walk: "advance_n (j + k') ?h1
                    = (replicate j True @ replicate k' False, snd (advance_n j ?h1))" for k'
    by (rule advance_n_walk)
  from walk [of k] walk [of 0]
  show "fst (advance_n (n + k) ?h0) = replicate n True @ replicate k False"
    and "snd (advance_n (n + k) ?h0) = snd (advance_n n ?h0)"
    by (simp_all add: n advance_n_Suc first del: advance_n.simps)
qed

lemma advance_n_empty:
  "PQntuples (result h) = 0 \<Longrightarrow> totalCount h = 0 \<Longrightarrow>
     fst (advance_n n h) = replicate n True
     \<and> count (snd (advance_n n h)) = count h
     \<and> totalCount (snd (advance_n n h)) = 0"
proof (induction n arbitrary: h)
  case 0
  then show ?case by simp
next
  case (Suc n)
  let ?h' = "fetch_fields (h\<lparr>totalCount := word_of_int (PQntuples (result h))\<rparr>)"
  have step: "snd (next_impl h) = (True, ?h')"
    using Suc.prems(2) by (rule next_impl_uncached)
  have "PQntuples (result ?h') = 0" "totalCount ?h' = 0" "count ?h' = count h"
    using Suc.prems by simp_all
  with Suc.IH [of ?h'] show ?case
    by (simp add: advance_n_Suc step del: advance_n.simps)
qed

text \<open>
  C1. On a result set with \<open>N\<close> rows the advance operation returns true \<open>N\<close> times, then
  false on call \<open>N + 1\<close> and on every later call. The code does so for \<open>N \<ge> 1\<close>
  (\<open>advance_n_nonempty\<close>) and not for \<open>N = 0\<close>: on the buffer without rows the first
  three calls all return true, where the first call should already return false.
\<close>

theorem next_impl_empty_result_returns_true:
  "PQntuples empty_result = 0
   \<and> fst (advance_n 3 (new_handle empty_result False)) = [True, True, True]"
  by (simp add: cursor_eval)

text \<open>
  C10. For a result set with zero rows, every call of \<open>next_impl\<close> on a new handle returns
  true and leaves the row cursor at 0: the cached total row count stays 0, which the code
  also reads as "not yet computed", so every call takes the recompute branch and the
  exhaustion branch is never reached.
\<close>

theorem zero_rows_always_true:
  "PQntuples res = 0 \<Longrightarrow>
     fst (advance_n n (new_handle res dbg)) = replicate n True
     \<and> count (snd (advance_n n (new_handle res dbg))) = 0
     \<and> totalCount (snd (advance_n n (new_handle res dbg))) = 0"
  using advance_n_empty [of "new_handle res dbg" n] by (simp add: new_handle_def)

theorem zero_rows_always_true_witness:
  "PQntuples empty_result = 0
   \<and> fst (advance_n 4 (new_handle empty_result True)) = [True, True, True, True]
   \<and> count (snd (advance_n 4 (new_handle empty_result True))) = 0
   \<and> totalCount (snd (advance_n 4 (new_handle empty_result True))) = 0"
proof -
  have rows: "PQntuples empty_result = 0"
    by (simp add: PQntuples_def empty_result_def)
  have "replicate 4 True = [True, True, True, True]"
    by (simp add: numeral_eq_Suc)
  with rows zero_rows_always_true [OF rows, of 4 True] show ?thesis
    by simp
qed

section \<open>Properties of the exception classes\<close>

lemma ancestors_chain:
  "ancestors Sqlpp_exception = [Sqlpp_exception]"
  "ancestors Failure = [Failure, Sqlpp_exception]"
  "ancestors Broken_connection = [Broken_connection, Failure, Sqlpp_exception]"
  "ancestors Too_many_connections = [Too_many_connections, Broken_connection, Failure, Sqlpp_exception]"
  "ancestors Sql_error = [Sql_error, Failure, Sqlpp_exception]"
  "ancestors Feature_not_supported = [Feature_not_supported, Sql_error, Failure, Sqlpp_exception]"
  "ancestors Data_exception = [Data_exception, Sql_error, Failure, Sqlpp_exception]"
  "ancestors Integrity_constraint_violation = [Integrity_constraint_violation, Sql_error, Failure, Sqlpp_exception]"
  "ancestors Restrict_violation = [Restrict_violation, Integrity_constraint_violation, Sql_error, Failure, Sqlpp_exception]"
  "ancestors Not_null_violation = [Not_null_violation, Integrity_constraint_violation, Sql_error, Failure, Sqlpp_exception]"
  "ancestors Foreign_key_violation = [Foreign_key_violation, Integrity_constraint_violation, Sql_error, Failure, Sqlpp_exception]"
  "ancestors Unique_violation = [Unique_violation, Integrity_constraint_violation, Sql_error, Failure, Sqlpp_exception]"
  "ancestors Check_violation = [Check_violation, Integrity_constraint_violation, Sql_error, Failure, Sqlpp_exception]"
  "ancestors Invalid_cursor_state = [Invalid_cursor_state, Sql_error, Failure, Sqlpp_exception]"
  "ancestors Invalid_sql_statement_name = [Invalid_sql_statement_name, Sql_error, Failure, Sqlpp_exception]"
  "ancestors Invalid_cursor_name = [Invalid_cursor_name, Sql_error, Failure, Sqlpp_exception]"
  "ancestors Syntax_error = [Syntax_error, Sql_error, Failure, Sqlpp_exception]"
  "ancestors Undefined_column = [Undefined_column, Syntax_error, Sql_error, Failure, Sqlpp_exception]"
  "ancestors Undefined_function = [Undefined_function, Syntax_error, Sql_error, Failure, Sqlpp_exception]"
  "ancestors Undefined_table = [Undefined_table, Syntax_error, Sql_error, Failure, Sqlpp_exception]"
  "ancestors Insufficient_privilege = [Insufficient_privilege, Sql_error, Failure, Sqlpp_exception]"
  "ancestors Insufficient_resources = [Insufficient_resources, Sql_error, Failure, Sqlpp_exception]"
  "ancestors Disk_full = [Disk_full, Insufficient_resources, Sql_error, Failure, Sqlpp_exception]"
  "ancestors Out_of_memory = [Out_of_memory, Insufficient_resources, Sql_error, Failure, Sqlpp_exception]"
  "ancestors Plpgsql_error = [Plpgsql_error, Sql_error, Failure, Sqlpp_exception]"
  "ancestors Plpgsql_raise = [Plpgsql_raise, Plpgsql_error, Sql_error, Failure, Sqlpp_exception]"
  "ancestors Plpgsql_no_data_found = [Plpgsql_no_data_found, Plpgsql_error, Sql_error, Failure, Sqlpp_exception]"
  "ancestors Plpgsql_too_many_rows = [Plpgsql_too_many_rows, Plpgsql_error, Sql_error, Failure, Sqlpp_exception]"
  "ancestors In_doubt_error = [In_doubt_error, Failure, Sqlpp_exception]"
  by (simp_all add: ancestors_def eval_nat_numeral)

lemmas constructor_defs =
  sqlpp_exception_def failure_def broken_connection_def too_many_connections_def
  sql_error_def sql_error_Q_def feature_not_supported_def feature_not_supported_Q_def
  data_exception_def data_exception_Q_def integrity_constraint_violation_def integrity_constraint_violation_Q_def
  restrict_violation_def restrict_violation_Q_def not_null_violation_def not_null_violation_Q_def
  foreign_key_violation_def foreign_key_violation_Q_def unique_violation_def unique_violation_Q_def
  check_violation_def check_violation_Q_def invalid_cursor_state_def invalid_cursor_state_Q_def
  invalid_sql_statement_name_def invalid_sql_statement_name_Q_def invalid_cursor_name_def invalid_cursor_name_Q_def
  syntax_error_def syntax_error_Q_def undefined_column_def undefined_column_Q_def
  undefined_function_def undefined_function_Q_def undefined_table_def undefined_table_Q_def
  insufficient_privilege_def insufficient_privilege_Q_def insufficient_resources_def insufficient_resources_Q_def
  disk_full_def disk_full_Q_def out_of_memory_def out_of_memory_Q_def
  plpgsql_error_def plpgsql_error_Q_def plpgsql_raise_def plpgsql_raise_Q_def
  plpgsql_no_data_found_def plpgsql_no_data_found_Q_def plpgsql_too_many_rows_def plpgsql_too_many_rows_Q_def
  in_doubt_error_def

lemma what_constructor:
  "what (failure m) = m"
  "what (broken_connection m) = m"
  "what (too_many_connections m) = m"
  "what (sql_error m) = m"
  "what (sql_error_Q m q) = m"
  "what (feature_not_supported m) = m"
  "what (feature_not_supported_Q m q) = m"
  "what (data_exception m) = m"
  "what (data_exception_Q m q) = m"
  "what (integrity_constraint_violation m) = m"
  "what (integrity_constraint_violation_Q m q) = m"
  "what (restrict_violation m) = m"
  "what (restrict_violation_Q m q) = m"
  "what (not_null_violation m) = m"
  "what (not_null_violation_Q m q) = m"
  "what (foreign_key_violation m) = m"
  "what (foreign_key_violation_Q m q) = m"
  "what (unique_violation m) = m"
  "what (unique_violation_Q m q) = m"
  "what (check_violation m) = m"
  "what (check_violation_Q m q) = m"
  "what (invalid_cursor_state m) = m"
  "what (invalid_cursor_state_Q m q) = m"
  "what (invalid_sql_statement_name m) = m"
  "what (invalid_sql_statement_name_Q m q) = m"
  "what (invalid_cursor_name m) = m"
  "what (invalid_cursor_name_Q m q) = m"
  "what (syntax_error m pos) = m"
  "what (syntax_error_Q m q pos) = m"
  "what (undefined_column m) = m"
  "what (undefined_column_Q m q) = m"
  "what (undefined_function m) = m"
  "what (undefined_function_Q m q) = m"
  "what (undefined_table m) = m"
  "what (undefined_table_Q m q) = m"
  "what (insufficient_privilege m) = m"
  "what (insufficient_privilege_Q m q) = m"
  "what (insufficient_resources m) = m"
  "what (insufficient_resources_Q m q) = m"
  "what (disk_full m) = m"
  "what (disk_full_Q m q) = m"
  "what (out_of_memory m) = m"
  "what (out_of_memory_Q m q) = m"
  "what (plpgsql_error m) = m"
  "what (plpgsql_error_Q m q) = m"
  "what (plpgsql_raise m) = m"
  "what (plpgsql_raise_Q m q) = m"
  "what (plpgsql_no_data_found m) = m"
  "what (plpgsql_no_data_found_Q m q) = m"
  "what (plpgsql_too_many_rows m) = m"
  "what (plpgsql_too_many_rows_Q m q) = m"
  "what (in_doubt_error m) = m"
  by (simp_all add: constructor_defs)

lemma dynamic_type_constructor:
  "dynamic_type (failure m) = Failure"
  "dynamic_type (broken_connection m) = Broken_connection"
  "dynamic_type (too_many_connections m) = Too_many_connections"
  "dynamic_type (sql_error m) = Sql_error"
  "dynamic_type (sql_error_Q m q) = Sql_error"
  "dynamic_type (feature_not_supported m) = Feature_not_supported"
  "dynamic_type (feature_not_supported_Q m q) = Feature_not_supported"
  "dynamic_type (data_exception m) = Data_exception"
  "dynamic_type (data_exception_Q m q) = Data_exception"
  "dynamic_type (integrity_constraint_violation m) = Integrity_constraint_violation"
  "dynamic_type (integrity_constraint_violation_Q m q) = Integrity_constraint_violation"
  "dynamic_type (restrict_violation m) = Restrict_violation"
  "dynamic_type (restrict_violation_Q m q) = Restrict_violation"
  "dynamic_type (not_null_violation m) = Not_null_violation"
  "dynamic_type (not_null_violation_Q m q) = Not_null_violation"
  "dynamic_type (foreign_key_violation m) = Foreign_key_violation"
  "dynamic_type (foreign_key_violation_Q m q) = Foreign_key_violation"
  "dynamic_type (unique_violation m) = Unique_violation"
  "dynamic_type (unique_violation_Q m q) = Unique_violation"
  "dynamic_type (check_violation m) = Check_violation"
  "dynamic_type (check_violation_Q m q) = Check_violation"
  "dynamic_type (invalid_cursor_state m) = Invalid_cursor_state"
  "dynamic_type (invalid_cursor_state_Q m q) = Invalid_cursor_state"
  "dynamic_type (invalid_sql_statement_name m) = Invalid_sql_statement_name"
  "dynamic_type (invalid_sql_statement_name_Q m q) = Invalid_sql_statement_name"
  "dynamic_type (invalid_cursor_name m) = Invalid_cursor_name"
  "dynamic_type (invalid_cursor_name_Q m q) = Invalid_cursor_name"
  "dynamic_type (syntax_error m pos) = Syntax_error"
  "dynamic_type (syntax_error_Q m q pos) = Syntax_error"
  "dynamic_type (undefined_column m) = Undefined_column"
  "dynamic_type (undefined_column_Q m q) = Undefined_column"
  "dynamic_type (undefined_function m) = Undefined_function"
  "dynamic_type (undefined_function_Q m q) = Undefined_function"
  "dynamic_type (undefined_table m) = Undefined_table"
  "dynamic_type (undefined_table_Q m q) = Undefined_table"
  "dynamic_type (insufficient_privilege m) = Insufficient_privilege"
  "dynamic_type (insufficient_privilege_Q m q) = Insufficient_privilege"
  "dynamic_type (insufficient_resources m) = Insufficient_resources"
  "dynamic_type (insufficient_resources_Q m q) = Insufficient_resources"
  "dynamic_type (disk_full m) = Disk_full"
  "dynamic_type (disk_full_Q m q) = Disk_full"
  "dynamic_type (out_of_memory m) = Out_of_memory"
  "dynamic_type (out_of_memory_Q m q) = Out_of_memory"
  "dynamic_type (plpgsql_error m) = Plpgsql_error"
  "dynamic_type (plpgsql_error_Q m q) = Plpgsql_error"
  "dynamic_type (plpgsql_raise m) = Plpgsql_raise"
  "dynamic_type (plpgsql_raise_Q m q) = Plpgsql_raise"
  "dynamic_type (plpgsql_no_data_found m) = Plpgsql_no_data_found"
  "dynamic_type (plpgsql_no_data_found_Q m q) = Plpgsql_no_data_found"
  "dynamic_type (plpgsql_too_many_rows m) = Plpgsql_too_many_rows"
  "dynamic_type (plpgsql_too_many_rows_Q m q) = Plpgsql_too_many_rows"
  "dynamic_type (in_doubt_error m) = In_doubt_error"
  by (simp_all add: constructor_defs)

text \<open>The 29 links that \<open>ancestors\<close> follows reach the top of every chain.\<close>

lemma ancestors_reach_root: "base (last (ancestors k)) = None"
  by (cases k) (simp_all add: ancestors_chain)

text \<open>
  The spec's scenario A: a \<open>unique_violation\<close> is caught as itself, as
  \<open>integrity_constraint_violation\<close>, as \<open>sql_error\<close> and as \<open>failure\<close>, and by no handler
  for another branch of the hierarchy.
\<close>

lemma unique_violation_catchable:
  "catchable_as (unique_violation_Q m q) k =
     (k \<in> {Unique_violation, Integrity_constraint_violation, Sql_error, Failure,
            Sqlpp_exception})"
  by (auto simp add: catchable_as_def dynamic_type_constructor ancestors_chain)

text \<open>
  The exception \<open>bind_result.cpp\<close> throws for an index out of range is a plain
  \<open>sqlpp::exception\<close>: a handler for \<open>failure\<close> does not catch it.
\<close>

lemma out_of_range_exception_not_failure:
  "\<not> catchable_as out_of_range_exception Failure"
  by (simp add: catchable_as_def out_of_range_exception_def sqlpp_exception_def ancestors_chain)

text \<open>
  C2. Every exception class constructed with message \<open>m\<close> returns \<open>m\<close> from \<open>what()\<close>,
  and is caught as each of its ancestors up to \<open>failure\<close>, along exactly the hierarchy of
  the spec: \<open>too_many_connections\<close> under \<open>broken_connection\<close>; the query errors, with
  their sub-branches, under \<open>sql_error\<close>; \<open>in_doubt_error\<close> directly under \<open>failure\<close>.
  Each line gives a constructor call, the message, and the chain of classes from the
  object's own class up to the root.
\<close>

theorem exception_hierarchy:
  "constructed (failure m) m
       [Failure, Sqlpp_exception]
   \<and> constructed (broken_connection m) m
       [Broken_connection, Failure, Sqlpp_exception]
   \<and> constructed (too_many_connections m) m
       [Too_many_connections, Broken_connection, Failure, Sqlpp_exception]
   \<and> constructed (sql_error m) m
       [Sql_error, Failure, Sqlpp_exception]
   \<and> constructed (sql_error_Q m q) m
       [Sql_error, Failure, Sqlpp_exception]
   \<and> constructed (feature_not_supported m) m
       [Feature_not_supported, Sql_error, Failure, Sqlpp_exception]
   \<and> constructed (feature_not_supported_Q m q) m
       [Feature_not_supported, Sql_error, Failure, Sqlpp_exception]
   \<and> constructed (data_exception m) m
       [Data_exception, Sql_error, Failure, Sqlpp_exception]
   \<and> constructed (data_exception_Q m q) m
       [Data_exception, Sql_error, Failure, Sqlpp_exception]
   \<and> constructed (integrity_constraint_violation m) m
       [Integrity_constraint_violation, Sql_error, Failure, Sqlpp_exception]
   \<and> constructed (integrity_constraint_violation_Q m q) m
       [Integrity_constraint_violation, Sql_error, Failure, Sqlpp_exception]
   \<and> constructed (restrict_violation m) m
       [Restrict_violation, Integrity_constraint_violation, Sql_error, Failure, Sqlpp_exception]
   \<and> constructed (restrict_violation_Q m q) m
       [Restrict_violation, Integrity_constraint_violation, Sql_error, Failure, Sqlpp_exception]
   \<and> constructed (not_null_violation m) m
       [Not_null_violation, Integrity_constraint_violation, Sql_error, Failure, Sqlpp_exception]
   \<and> constructed (not_null_violation_Q m q) m
       [Not_null_violation, Integrity_constraint_violation, Sql_error, Failure, Sqlpp_exception]
   \<and> constructed (foreign_key_violation m) m
       [Foreign_key_violation, Integrity_constraint_violation, Sql_error, Failure, Sqlpp_exception]
   \<and> constructed (foreign_key_violation_Q m q) m
       [Foreign_key_violation, Integrity_constraint_violation, Sql_error, Failure, Sqlpp_exception]
   \<and> constructed (unique_violation m) m
       [Unique_violation, Integrity_constraint_violation, Sql_error, Failure, Sqlpp_exception]
   \<and> constructed (unique_violation_Q m q) m
       [Unique_violation, Integrity_constraint_violation, Sql_error, Failure, Sqlpp_exception]
   \<and> constructed (check_violation m) m
       [Check_violation, Integrity_constraint_violation, Sql_error, Failure, Sqlpp_exception]
   \<and> constructed (check_violation_Q m q) m
       [Check_violation, Integrity_constraint_violation, Sql_error, Failure, Sqlpp_exception]
   \<and> constructed (invalid_cursor_state m) m
       [Invalid_cursor_state, Sql_error, Failure, Sqlpp_exception]
   \<and> constructed (invalid_cursor_state_Q m q) m
       [Invalid_cursor_state, Sql_error, Failure, Sqlpp_exception]
   \<and> constructed (invalid_sql_statement_name m) m
       [Invalid_sql_statement_name, Sql_error, Failure, Sqlpp_exception]
   \<and> constructed (invalid_sql_statement_name_Q m q) m
       [Invalid_sql_statement_name, Sql_error, Failure, Sqlpp_exception]
   \<and> constructed (invalid_cursor_name m) m
       [Invalid_cursor_name, Sql_error, Failure, Sqlpp_exception]
   \<and> constructed (invalid_cursor_name_Q m q) m
       [Invalid_cursor_name, Sql_error, Failure, Sqlpp_exception]
   \<and> constructed (syntax_error m pos) m
       [Syntax_error, Sql_error, Failure, Sqlpp_exception]
   \<and> constructed (syntax_error_Q m q pos) m
       [Syntax_error, Sql_error, Failure, Sqlpp_exception]
   \<and> constructed (undefined_column m) m
       [Undefined_column, Syntax_error, Sql_error, Failure, Sqlpp_exception]
   \<and> constructed (undefined_column_Q m q) m
       [Undefined_column, Syntax_error, Sql_error, Failure, Sqlpp_exception]
   \<and> constructed (undefined_function m) m
       [Undefined_function, Syntax_error, Sql_error, Failure, Sqlpp_exception]
   \<and> constructed (undefined_function_Q m q) m
       [Undefined_function, Syntax_error, Sql_error, Failure, Sqlpp_exception]
   \<and> constructed (undefined_table m) m
       [Undefined_table, Syntax_error, Sql_error, Failure, Sqlpp_exception]
   \<and> constructed (undefined_table_Q m q) m
       [Undefined_table, Syntax_error, Sql_error, Failure, Sqlpp_exception]
   \<and> constructed (insufficient_privilege m) m
       [Insufficient_privilege, Sql_error, Failure, Sqlpp_exception]
   \<and> constructed (insufficient_privilege_Q m q) m
       [Insufficient_privilege, Sql_error, Failure, Sqlpp_exception]
   \<and> constructed (insufficient_resources m) m
       [Insufficient_resources, Sql_error, Failure, Sqlpp_exception]
   \<and> constructed (insufficient_resources_Q m q) m
       [Insufficient_resources, Sql_error, Failure, Sqlpp_exception]
   \<and> constructed (disk_full m) m
       [Disk_full, Insufficient_resources, Sql_error, Failure, Sqlpp_exception]
   \<and> constructed (disk_full_Q m q) m
       [Disk_full, Insufficient_resources, Sql_error, Failure, Sqlpp_exception]
   \<and> constructed (out_of_memory m) m
       [Out_of_memory, Insufficient_resources, Sql_error, Failure, Sqlpp_exception]
   \<and> constructed (out_of_memory_Q m q) m
       [Out_of_memory, Insufficient_resources, Sql_error, Failure, Sqlpp_exception]
   \<and> constructed (plpgsql_error m) m
       [Plpgsql_error, Sql_error, Failure, Sqlpp_exception]
   \<and> constructed (plpgsql_error_Q m q) m
       [Plpgsql_error, Sql_error, Failure, Sqlpp_exception]
   \<and> constructed (plpgsql_raise m) m
       [Plpgsql_raise, Plpgsql_error, Sql_error, Failure, Sqlpp_exception]
   \<and> constructed (plpgsql_raise_Q m q) m
       [Plpgsql_raise, Plpgsql_error, Sql_error, Failure, Sqlpp_exception]
   \<and> constructed (plpgsql_no_data_found m) m
       [Plpgsql_no_data_found, Plpgsql_error, Sql_error, Failure, Sqlpp_exception]
   \<and> constructed (plpgsql_no_data_found_Q m q) m
       [Plpgsql_no_data_found, Plpgsql_error, Sql_error, Failure, Sqlpp_exception]
   \<and> constructed (plpgsql_too_many_rows m) m
       [Plpgsql_too_many_rows, Plpgsql_error, Sql_error, Failure, Sqlpp_exception]
   \<and> constructed (plpgsql_too_many_rows_Q m q) m
       [Plpgsql_too_many_rows, Plpgsql_error, Sql_error, Failure, Sqlpp_exception]
   \<and> constructed (in_doubt_error m) m
       [In_doubt_error, Failure, Sqlpp_exception]"
  by (simp add: constructed_def what_constructor dynamic_type_constructor ancestors_chain)

section \<open>Properties of the decode operations\<close>

text \<open>
  C3, as the spec has it: each decode raises the out-of-range error if and only if
  \<open>index\<close> is strictly greater than the cached field count, and a call with \<open>index\<close>
  equal to the field count passes the bounds check and does not raise. After one
  advance on \<open>sample_result\<close> the cached field count is 2, the buffer's. At index 2 the
  check passes, \<open>PQgetvalue\<close> returns a null pointer for the column that does not exist,
  and each of the three scalar decodes builds the \<open>std::string\<close> of its
  \<open>std::istringstream\<close> from that null pointer: none of them returns.
\<close>

theorem index_equal_field_count_counterexample:
  "unat (2 :: size_t) = unat (fields' (row_handle 1))
   \<and> PQnfields sample_result = 2
   \<and> snd (bind_boolean_result (row_handle 1) 2 0) = Inl Null_string
   \<and> snd (bind_floating_point_result (\<lambda>s. None) (0 :: int) (row_handle 1) 2 0)
       = Inl Null_string
   \<and> snd (bind_integral_result (row_handle 1) 2 0) = Inl Null_string"
  by (simp add: decode_eval PQnfields_def)

lemma scalar_decode_outside_table:
  "unat index \<le> unat (fields' h) \<Longrightarrow> \<not> cell_in_table h index \<Longrightarrow>
     snd (bind_boolean_result h index vb) = Inl Null_string"
  "unat index \<le> unat (fields' h) \<Longrightarrow> \<not> cell_in_table h index \<Longrightarrow>
     snd (bind_floating_point_result conv zero h index vd) = Inl Null_string"
  "unat index \<le> unat (fields' h) \<Longrightarrow> \<not> cell_in_table h index \<Longrightarrow>
     snd (bind_integral_result h index vi) = Inl Null_string"
  by (simp_all add: bind_boolean_result_def bind_floating_point_result_def
      bind_integral_result_def bounds_check_unat cell_in_table_def PQgetvalue_def)

lemma text_decode_passing_check:
  "unat index \<le> unat (fields' h) \<Longrightarrow>
     snd (bind_text_result h index) =
       Inr (PQgetvalue (result h) (int_of_uint32 (count h)) (int_of_size_t index),
            word_of_int
              (PQgetlength (result h) (int_of_uint32 (count h)) (int_of_size_t index)))"
  by (simp add: bind_text_result_def bounds_check_unat)

text \<open>
  C3, amended. Each decode operation (boolean, floating point, integral, text) raises
  the out-of-range error if and only if \<open>index\<close> is strictly greater than the cached field
  count; in particular an index equal to the field count passes the bounds check. For an
  index that passes the check, the text decode returns, with whatever pointer and
  length the buffer gives for that row and column; a scalar decode returns if the cell
  addressed is inside the buffer's table, and otherwise does not return: it hands the
  null pointer it gets from the buffer to \<open>std::istringstream\<close>.
\<close>

theorem out_of_range_iff_index_exceeds_fields:
  "(snd (bind_boolean_result h index vb) = Inl Index_out_of_range)
      = (unat (fields' h) < unat index)
   \<and> (snd (bind_floating_point_result conv zero h index vd) = Inl Index_out_of_range)
      = (unat (fields' h) < unat index)
   \<and> (snd (bind_integral_result h index vi) = Inl Index_out_of_range)
      = (unat (fields' h) < unat index)
   \<and> (snd (bind_text_result h index) = Inl Index_out_of_range)
      = (unat (fields' h) < unat index)
   \<and> (unat index \<le> unat (fields' h) \<longrightarrow>
        snd (bind_text_result h index) =
          Inr (PQgetvalue (result h) (int_of_uint32 (count h)) (int_of_size_t index),
               word_of_int
                 (PQgetlength (result h) (int_of_uint32 (count h)) (int_of_size_t index))))
   \<and> (unat index \<le> unat (fields' h) \<and> cell_in_table h index \<longrightarrow>
        (\<exists>v b. snd (bind_boolean_result h index vb) = Inr (v, b))
        \<and> (\<exists>v b. snd (bind_floating_point_result conv zero h index vd) = Inr (v, b))
        \<and> (\<exists>v b. snd (bind_integral_result h index vi) = Inr (v, b)))
   \<and> (unat index \<le> unat (fields' h) \<and> \<not> cell_in_table h index \<longrightarrow>
        snd (bind_boolean_result h index vb) = Inl Null_string
        \<and> snd (bind_floating_point_result conv zero h index vd) = Inl Null_string
        \<and> snd (bind_integral_result h index vi) = Inl Null_string)"
proof -
  have iffs:
    "(snd (bind_boolean_result h index vb) = Inl Index_out_of_range)
        = (unat (fields' h) < unat index)"
    "(snd (bind_floating_point_result conv zero h index vd) = Inl Index_out_of_range)
        = (unat (fields' h) < unat index)"
    "(snd (bind_integral_result h index vi) = Inl Index_out_of_range)
        = (unat (fields' h) < unat index)"
    "(snd (bind_text_result h index) = Inl Index_out_of_range)
        = (unat (fields' h) < unat index)"
    by (simp_all add: bind_boolean_result_def bind_floating_point_result_def
        bind_integral_result_def bind_text_result_def bounds_check_unat split: option.split)
  show ?thesis
    by (simp add: iffs text_decode_passing_check scalar_decode_outside_table
        bind_boolean_result_in_table bind_floating_point_result_in_table
        bind_integral_result_in_table)
qed

theorem out_of_range_iff_index_exceeds_fields_witness:
  "unat (2 :: size_t) \<le> unat (fields' (row_handle 1))
   \<and> \<not> cell_in_table (row_handle 1) 2
   \<and> snd (bind_text_result (row_handle 1) 2) = Inr (None, 0)
   \<and> snd (bind_integral_result (row_handle 1) 2 7) = Inl Null_string
   \<and> snd (bind_integral_result (row_handle 1) 3 7) = Inl Index_out_of_range
   \<and> unat (0 :: size_t) \<le> unat (fields' (row_handle 1))
   \<and> cell_in_table (row_handle 1) 0
   \<and> (\<exists>v b. snd (bind_integral_result (row_handle 1) 0 7) = Inr (v, b))"
proof -
  have pass: "unat (2 :: size_t) \<le> unat (fields' (row_handle 1))"
    by (simp add: row_handle_eval)
  have outside: "\<not> cell_in_table (row_handle 1) 2"
    by (simp add: decode_eval)
  have above: "unat (fields' (row_handle 1)) < unat (3 :: size_t)"
    by (simp add: row_handle_eval)
  have null_ptr: "PQgetvalue sample_result 0 2 = None" "PQgetlength sample_result 0 2 = 0"
    by (simp_all add: decode_eval)
  have row: "result (row_handle 1) = sample_result" "int_of_uint32 (count (row_handle 1)) = 0"
    "int_of_size_t 2 = 2"
    by (simp_all add: row_handle_eval int_of_uint32_def int_of_size_t_def)
  have pass0: "unat (0 :: size_t) \<le> unat (fields' (row_handle 1))"
    by simp
  have inside: "cell_in_table (row_handle 1) 0"
    by (simp add: decode_eval)
  from out_of_range_iff_index_exceeds_fields
         [of "row_handle 1" 2 0 "\<lambda>s. None" "0 :: int" 0 7]
       out_of_range_iff_index_exceeds_fields
         [of "row_handle 1" 3 0 "\<lambda>s. None" "0 :: int" 0 7]
       out_of_range_iff_index_exceeds_fields
         [of "row_handle 1" 0 0 "\<lambda>s. None" "0 :: int" 0 7]
  show ?thesis
    using pass outside above null_ptr row pass0 inside by simp
qed

text \<open>
  C4. For an index that passes the bounds check and a cell inside the table, each scalar
  decode (boolean, floating point, integral) returns, and its \<open>is_null\<close> output is the
  buffer's null marker of the cell at (current row, column), whatever the cell's text and
  whatever the extraction made of it.
\<close>

theorem is_null_is_buffer_null_marker:
  assumes "unat index \<le> unat (fields' h)" and "cell_in_table h index"
  shows "(\<exists>v. snd (bind_boolean_result h index vb)
              = Inr (v, att_len (current_cell h index) = NULL_LEN))
       \<and> (\<exists>v. snd (bind_floating_point_result conv zero h index vd)
              = Inr (v, att_len (current_cell h index) = NULL_LEN))
       \<and> (\<exists>v. snd (bind_integral_result h index vi)
              = Inr (v, att_len (current_cell h index) = NULL_LEN))
       \<and> (PQgetisnull (result h) (int_of_uint32 (count h)) (int_of_size_t index) \<noteq> 0)
           = (att_len (current_cell h index) = NULL_LEN)"
  using assms
  by (simp add: bind_boolean_result_in_table bind_floating_point_result_in_table
      bind_integral_result_in_table)
     (simp add: cell_in_table_def current_cell_def PQgetisnull_in_table)

theorem is_null_is_buffer_null_marker_witness:
  "unat (1 :: size_t) \<le> unat (fields' (row_handle 1))
   \<and> cell_in_table (row_handle 1) 1
   \<and> att_len (current_cell (row_handle 1) 1) = NULL_LEN
   \<and> (\<exists>v. snd (bind_integral_result (row_handle 1) 1 7) = Inr (v, True))"
proof -
  have pass: "unat (1 :: size_t) \<le> unat (fields' (row_handle 1))"
    by (simp add: row_handle_eval)
  have cell: "cell_in_table (row_handle 1) 1"
    by (simp add: decode_eval)
  have null: "att_len (current_cell (row_handle 1) 1) = NULL_LEN"
    by (simp add: decode_eval)
  from is_null_is_buffer_null_marker [OF pass cell, of 0 "\<lambda>s. None" "0 :: int" 0 7]
  show ?thesis
    using pass cell null by simp
qed

text \<open>
  C5, as the spec has it: a text that fails to parse yields the type's zero value. Three
  cells of \<open>sample_result\<close> show otherwise:
  \<^item> the integral decode of the null cell of row 0 (empty text), with 7 in the caller's
    variable, leaves 7 there;
  \<^item> the integral decode of \<open>99999999999999999999\<close> stores the largest \<open>int64_t\<close>;
  \<^item> the boolean decode of the present empty string of row 1, with 1 in the caller's
    variable, leaves 1 there and reports \<open>is_null = false\<close>.
\<close>

theorem parse_failure_value_counterexample:
  "snd (bind_integral_result (row_handle 1) 1 7) = Inr (7, True)
   \<and> snd (bind_integral_result (row_handle 3) 0 0) = Inr (9223372036854775807, False)
   \<and> snd (bind_boolean_result (row_handle 2) 1 1) = Inr (1, False)"
  by (simp add: decode_eval)

lemma extract_blank:
  "skipws s = [] \<Longrightarrow> extract_signed_char s vb = vb"
  "skipws s = [] \<Longrightarrow> extract_double conv zero s vd = vd"
  "skipws s = [] \<Longrightarrow> extract_int64 s vi = vi"
  by (simp_all add: extract_signed_char_def extract_double_def extract_int64_def)

lemma extract_int64_no_number:
  "skipws s \<noteq> [] \<Longrightarrow> leading_digits (skipws s) = [] \<Longrightarrow> extract_int64 s vi = 0"
  by (cases "skipws s") (simp_all add: extract_int64_def num_get_int64_def Let_def)

lemma extract_double_no_number:
  "skipws s \<noteq> [] \<Longrightarrow> conv (skipws s) = None \<Longrightarrow> extract_double conv zero s vd = zero"
  by (cases "skipws s") (simp_all add: extract_double_def)

text \<open>
  C5, amended. For an index that passes the bounds check and a cell inside the table, no
  scalar decode raises, whatever the cell's text. When the text is empty or all white
  space, each decode leaves the caller's value as it was. When the text has another
  character but does not start, after the white space, with a number, the integral and
  the floating-point decode store 0.
\<close>

theorem scalar_decode_never_raises:
  assumes "unat index \<le> unat (fields' h)" and "cell_in_table h index"
  shows "(\<exists>v b. snd (bind_boolean_result h index vb) = Inr (v, b))
       \<and> (\<exists>v b. snd (bind_floating_point_result conv zero h index vd) = Inr (v, b))
       \<and> (\<exists>v b. snd (bind_integral_result h index vi) = Inr (v, b))
       \<and> (skipws (att_value (current_cell h index)) = [] \<longrightarrow>
            (\<exists>b. snd (bind_boolean_result h index vb) = Inr (vb, b))
            \<and> (\<exists>b. snd (bind_floating_point_result conv zero h index vd) = Inr (vd, b))
            \<and> (\<exists>b. snd (bind_integral_result h index vi) = Inr (vi, b)))
       \<and> (skipws (att_value (current_cell h index)) \<noteq> []
            \<and> leading_digits (skipws (att_value (current_cell h index))) = [] \<longrightarrow>
            (\<exists>b. snd (bind_integral_result h index vi) = Inr (0, b)))
       \<and> (skipws (att_value (current_cell h index)) \<noteq> []
            \<and> conv (skipws (att_value (current_cell h index))) = None \<longrightarrow>
            (\<exists>b. snd (bind_floating_point_result conv zero h index vd) = Inr (zero, b)))"
  using assms
  by (simp add: bind_boolean_result_in_table bind_floating_point_result_in_table
      bind_integral_result_in_table extract_blank extract_int64_no_number
      extract_double_no_number)

theorem scalar_decode_never_raises_witness:
  "unat (0 :: size_t) \<le> unat (fields' (row_handle 2))
   \<and> cell_in_table (row_handle 2) 0
   \<and> skipws (att_value (current_cell (row_handle 2) 0)) = ''abc''
   \<and> leading_digits ''abc'' = []
   \<and> (\<exists>b. snd (bind_integral_result (row_handle 2) 0 5) = Inr (0, b))
   \<and> (\<exists>b. snd (bind_floating_point_result (\<lambda>s. None) (0 :: int) (row_handle 2) 0 5)
             = Inr (0, b))
   \<and> unat (1 :: size_t) \<le> unat (fields' (row_handle 1))
   \<and> cell_in_table (row_handle 1) 1
   \<and> skipws (att_value (current_cell (row_handle 1) 1)) = []
   \<and> (\<exists>b. snd (bind_boolean_result (row_handle 1) 1 116) = Inr (116, b))
   \<and> (\<exists>b. snd (bind_integral_result (row_handle 1) 1 5) = Inr (5, b))"
proof -
  have pass: "unat (0 :: size_t) \<le> unat (fields' (row_handle 2))"
    by simp
  have cell: "cell_in_table (row_handle 2) 0"
    by (simp add: decode_eval)
  have txt_abc: "skipws (att_value (current_cell (row_handle 2) 0)) = ''abc''"
    by (simp add: decode_eval)
  have digits: "leading_digits ''abc'' = []"
    by (simp add: leading_digits_def strip_sign_def isdigit_def)
  have pass': "unat (1 :: size_t) \<le> unat (fields' (row_handle 1))"
    by (simp add: row_handle_eval)
  have cell': "cell_in_table (row_handle 1) 1"
    by (simp add: decode_eval)
  have blank: "skipws (att_value (current_cell (row_handle 1) 1)) = []"
    by (simp add: decode_eval)
  from scalar_decode_never_raises [OF pass cell, of 0 "\<lambda>s. None" "0 :: int" 5 5]
    scalar_decode_never_raises [OF pass' cell', of 116 "\<lambda>s. None" "0 :: int" 5 5]
  show ?thesis
    using pass cell txt_abc digits pass' cell' blank by simp
qed

section \<open>The cached field count\<close>

text \<open>
  C6, as the spec has it: the field count is computed on the first decode call, and no
  advance call computes it. On a new handle over \<open>sample_result\<close> (two columns) the cached
  count is 0; one call of \<open>next_impl\<close> makes it 2; and a text decode of column 1 on the
  new handle, with no advance before it, finds the count still 0 and raises.
\<close>

theorem field_count_computed_by_advance_counterexample:
  "fields' (new_handle sample_result False) = 0
   \<and> fields' (snd (snd (next_impl (new_handle sample_result False)))) = 2
   \<and> PQnfields sample_result = 2
   \<and> snd (bind_text_result (new_handle sample_result False) 1) = Inl Index_out_of_range"
  by (simp add: cursor_eval bind_text_result_def)

text \<open>
  C6, amended. The field count is computed and cached by the advance operation: a call
  of \<open>next_impl\<close> that returns true while the cached count is 0 stores the buffer's field
  count, and every other call leaves the cached count as it is. No decode call computes
  it: on a new handle, whose cached count is 0, each decode raises the out-of-range
  error for every index but 0.
\<close>

theorem field_count_cached_by_advance:
  "fields' (snd (snd (next_impl h))) =
     (if fst (snd (next_impl h)) \<and> fields' h = 0 then word_of_int (PQnfields (result h))
      else fields' h)
   \<and> (snd (bind_boolean_result (new_handle res dbg) index vb) = Inl Index_out_of_range)
      = (index \<noteq> 0)
   \<and> (snd (bind_floating_point_result conv zero (new_handle res dbg) index vd)
        = Inl Index_out_of_range)
      = (index \<noteq> 0)
   \<and> (snd (bind_integral_result (new_handle res dbg) index vi) = Inl Index_out_of_range)
      = (index \<noteq> 0)
   \<and> (snd (bind_text_result (new_handle res dbg) index) = Inl Index_out_of_range)
      = (index \<noteq> 0)"
proof -
  have "fields' (snd (snd (next_impl h))) =
     (if fst (snd (next_impl h)) \<and> fields' h = 0 then word_of_int (PQnfields (result h))
      else fields' h)"
    by (simp add: next_impl_def fetch_fields_def Let_def)
  moreover have "(ucast (fields' (new_handle res dbg)) < index) = (index \<noteq> 0)"
    by (simp add: new_handle_def word_neq_0_conv)
  ultimately show ?thesis
    by (simp add: bind_boolean_result_def bind_floating_point_result_def
        bind_integral_result_def bind_text_result_def split: option.split)
qed

section \<open>The text decode\<close>

text \<open>
  C7. For every in-bounds column index the text decode returns the buffer's pointer for
  the cell and its byte length, and a null cell can be told from a present empty string
  by a null indication taken from the buffer's null marker, not from the length. The
  pointer and the length are as the claim says (\<open>bind_text_result_in_table\<close>). The null
  indication is missing: the three scalar decodes end with
  \<open>*is_null = PQgetisnull(...)\<close>, while \<open>_bind_text_result\<close> never calls \<open>PQgetisnull\<close>
  and does not null the pointer either. In column 1 of \<open>sample_result\<close>, row 0 is an SQL
  null and row 1 a present empty string: the buffer's marker tells them apart, and the
  text decode returns the same outputs for both, a pointer to an empty string and the
  length 0.
\<close>

theorem text_decode_null_like_empty_string:
  "PQgetisnull sample_result 0 1 = 1
   \<and> PQgetisnull sample_result 1 1 = 0
   \<and> snd (bind_text_result (row_handle 1) 1) = Inr (Some [], 0)
   \<and> snd (bind_text_result (row_handle 2) 1) = Inr (Some [], 0)
   \<and> snd (bind_integral_result (row_handle 1) 1 0) = Inr (0, True)
   \<and> snd (bind_integral_result (row_handle 2) 1 0) = Inr (0, False)"
  by (simp add: decode_eval)

section \<open>The handle's invariant\<close>

lemma next_impl_cursor_ok:
  assumes "cursor_ok res h"
  shows "cursor_ok res (snd (snd (next_impl h)))"
proof -
  from assms have nz: "totalCount h \<noteq> 0"
    by (auto simp add: cursor_ok_def)
  from assms have cached: "fields' h = word_of_int (PQnfields (result h))"
    by (simp add: cursor_ok_def)
  show ?thesis
  proof (cases "count h < totalCount h - 1")
    case True
    with nz have "unat (count h) < unat (totalCount h) - 1"
      by (simp add: word_less_pred)
    then have succ: "unat (count h + 1) = Suc (unat (count h))"
      by (rule unat_succ_below)
    from cached have "fetch_fields (h\<lparr>count := count h + 1\<rparr>) = h\<lparr>count := count h + 1\<rparr>"
      by (simp add: fetch_fields_cached)
    with True nz have "snd (snd (next_impl h)) = h\<lparr>count := count h + 1\<rparr>"
      by (simp add: next_impl_step)
    with assms True nz succ show ?thesis
      by (simp add: cursor_ok_def word_less_pred)
  next
    case False
    with nz assms show ?thesis
      by (simp add: next_impl_exhausted)
  qed
qed

lemma run_cursor_ok: "cursor_ok res h \<Longrightarrow> cursor_ok res (run h calls)"
proof (induction calls arbitrary: h)
  case Nil
  then show ?case by (simp add: run_def)
next
  case (Cons c calls)
  from Cons.prems have "cursor_ok res (do_call h c)"
    by (cases c) (simp_all add: next_impl_cursor_ok)
  then have "cursor_ok res (run (do_call h c) calls)"
    by (rule Cons.IH)
  then show ?case by (simp add: run_def)
qed

text \<open>
  On a buffer with at least one row, after the first advance and any further advance and
  decode calls: the row cursor is below the total row count, and the cached counts are
  the buffer's (so the field count, once computed, does not change).
\<close>

lemma cursor_in_range_nonempty:
  assumes rows: "PQntuples res = int n" and pos: "0 < n" and int_range: "n < 2 ^ 31"
  shows "cursor_ok res (run (new_handle res dbg) (Next # calls))"
proof -
  let ?h0 = "new_handle res dbg"
  let ?h1 = "fetch_fields (?h0\<lparr>totalCount := word_of_int (PQntuples (result ?h0))\<rparr>)"
  have first: "snd (next_impl ?h0) = (True, ?h1)"
    by (rule next_impl_uncached) (simp add: new_handle_def)
  from int_range have "n < 2 ^ 32"
    by simp
  with rows pos have "unat (totalCount ?h1) = n"
    by (simp add: new_handle_def unat_of_nat_32)
  with pos have "cursor_ok res ?h1"
    by (simp add: cursor_ok_def) (simp add: new_handle_def fetch_fields_def)
  then have "cursor_ok res (run ?h1 calls)"
    by (rule run_cursor_ok)
  with first show ?thesis
    by (simp add: run_def)
qed

text \<open>
  C8. After iteration has started, the row cursor stays in \<open>[0, totalCount)\<close> and the
  field count, once computed, never changes. The code keeps both on every buffer with at
  least one row (\<open>cursor_in_range_nonempty\<close>). On the buffer without rows the first call
  of \<open>next_impl\<close> returns true, so iteration has started, with the row cursor and the total
  row count both 0: the cursor is not below the count.
\<close>

theorem empty_result_cursor_not_in_range:
  "fst (snd (next_impl (new_handle empty_result False))) = True
   \<and> count (run (new_handle empty_result False) [Next]) = 0
   \<and> totalCount (run (new_handle empty_result False) [Next]) = 0
   \<and> \<not> count (run (new_handle empty_result False) [Next])
         < totalCount (run (new_handle empty_result False) [Next])"
  by (simp add: run_def cursor_eval)

section \<open>The debug flag\<close>

lemma next_impl_debug:
  "snd (next_impl (h\<lparr>debug := d\<rparr>))
     = (fst (snd (next_impl h)), (snd (snd (next_impl h)))\<lparr>debug := d\<rparr>)"
  by (simp add: next_impl_def Let_def fetch_fields_def)

lemma bind_result_debug:
  "snd (bind_boolean_result (h\<lparr>debug := d\<rparr>) index vb) = snd (bind_boolean_result h index vb)"
  "snd (bind_floating_point_result conv zero (h\<lparr>debug := d\<rparr>) index vd)
     = snd (bind_floating_point_result conv zero h index vd)"
  "snd (bind_integral_result (h\<lparr>debug := d\<rparr>) index vi)
     = snd (bind_integral_result h index vi)"
  "snd (bind_text_result (h\<lparr>debug := d\<rparr>) index) = snd (bind_text_result h index)"
  by (simp_all add: bind_boolean_result_def bind_floating_point_result_def
      bind_integral_result_def bind_text_result_def split: option.split)

lemma no_trace_without_debug:
  "fst (next_impl (h\<lparr>debug := False\<rparr>)) = []"
  "fst (bind_boolean_result (h\<lparr>debug := False\<rparr>) index vb) = []"
  "fst (bind_floating_point_result conv zero (h\<lparr>debug := False\<rparr>) index vd) = []"
  "fst (bind_integral_result (h\<lparr>debug := False\<rparr>) index vi) = []"
  "fst (bind_text_result (h\<lparr>debug := False\<rparr>) index) = []"
  by (simp_all add: next_impl_def Let_def cerr_if_def bind_boolean_result_def
      bind_floating_point_result_def bind_integral_result_def bind_text_result_def)

text \<open>
  C9. For every cursor operation and every input, the run with the debug flag set and
  the run with it unset return the same values, write the same outputs and leave the
  same row cursor and cached counts: changing the flag of the handle changes nothing but
  the flag in the resulting handle. With the flag unset nothing is written to
  \<open>std::cerr\<close>.
\<close>

theorem debug_flag_only_controls_tracing:
  "fst (snd (next_impl (h\<lparr>debug := d\<rparr>))) = fst (snd (next_impl h))
   \<and> snd (snd (next_impl (h\<lparr>debug := d\<rparr>))) = (snd (snd (next_impl h)))\<lparr>debug := d\<rparr>
   \<and> snd (bind_boolean_result (h\<lparr>debug := d\<rparr>) index vb) = snd (bind_boolean_result h index vb)
   \<and> snd (bind_floating_point_result conv zero (h\<lparr>debug := d\<rparr>) index vd)
       = snd (bind_floating_point_result conv zero h index vd)
   \<and> snd (bind_integral_result (h\<lparr>debug := d\<rparr>) index vi)
       = snd (bind_integral_result h index vi)
   \<and> snd (bind_text_result (h\<lparr>debug := d\<rparr>) index) = snd (bind_text_result h index)
   \<and> fst (next_impl (h\<lparr>debug := False\<rparr>)) = []
   \<and> fst (bind_boolean_result (h\<lparr>debug := False\<rparr>) index vb) = []
   \<and> fst (bind_floating_point_result conv zero (h\<lparr>debug := False\<rparr>) index vd) = []
   \<and> fst (bind_integral_result (h\<lparr>debug := False\<rparr>) index vi) = []
   \<and> fst (bind_text_result (h\<lparr>debug := False\<rparr>) index) = []"
  by (simp add: next_impl_debug bind_result_debug no_trace_without_debug)

end
